theory Spec2Isabelle
  imports Main
begin

section \<open>The PubMed abstract scraper (pubmed-scraper.py)\<close>

text \<open>
  A shallow embedding of \<^verbatim>\<open>src/pubmed/pubmed-scraper.py\<close>. Every function of the
  script is a HOL function of the same name. The script works through three libraries
  (requests-html, toml, pandas) and the file system; what the script observes of them
  is made explicit data:
  \<^item> a parsed HTML element is the text it exposes and, per selector, the elements
    that \<^verbatim>\<open>find\<close> returns in document order;
  \<^item> the network is a function from a URL to what \<^verbatim>\<open>session.get\<close> does:
    raise, or return a response;
  \<^item> the file system is the state of \<^verbatim>\<open>request.toml\<close> and of
    \<^verbatim>\<open>output/pubmed_data.csv\<close>;
  \<^item> a raised exception is the left summand of the result.
\<close>

subsection \<open>Python's \<^verbatim>\<open>str.strip\<close> and \<^verbatim>\<open>str.replace\<close>\<close>

text \<open>
  A Python string is a list of code points; the model covers the code points below 256,
  one \<^typ>\<open>char\<close> each. \<^verbatim>\<open>str.isspace\<close> holds there for U+0009..U+000D,
  U+001C..U+0020, U+0085 and U+00A0.
\<close>

definition isspace :: "char \<Rightarrow> bool" where
  "isspace c = (of_char c \<in> set [9, 10, 11, 12, 13, 28, 29, 30, 31, 32, 133, 160 :: nat])"

text \<open>\<^verbatim>\<open>s.strip()\<close>: leading and trailing whitespace removed.\<close>

definition strip :: "string \<Rightarrow> string" where
  "strip s = rev (dropWhile isspace (rev (dropWhile isspace s)))"

text \<open>
  \<^verbatim>\<open>s.replace(old, new)\<close> with no count: every non-overlapping occurrence of
  \<open>old\<close>, scanning from the left, becomes \<open>new\<close>. An empty \<open>old\<close> matches
  before every character and at the end.
\<close>

fun replace :: "string \<Rightarrow> string \<Rightarrow> string \<Rightarrow> string" where
  "replace [] old new = (if old = [] then new else [])"
| "replace (c # cs) old new =
     (if old = [] then new @ c # replace cs old new
      else if take (length old) (c # cs) = old
           then new @ replace (drop (length old) (c # cs)) old new
           else c # replace cs old new)"

text \<open>
  The specification's wording of the removal step, for comparison with the code:
  \<^verbatim>\<open>s.replace(old, new, 1)\<close>, which rewrites the first occurrence only.
\<close>

fun replace_first :: "string \<Rightarrow> string \<Rightarrow> string \<Rightarrow> string" where
  "replace_first [] old new = (if old = [] then new else [])"
| "replace_first (c # cs) old new =
     (if take (length old) (c # cs) = old
      then new @ drop (length old) (c # cs)
      else c # replace_first cs old new)"

subsection \<open>Exceptions\<close>

text \<open>
  The exceptions the script raises, catches or lets through. \<open>TransportError\<close> stands
  for what \<^verbatim>\<open>session.get\<close> raises on a failed connection (a
  \<^verbatim>\<open>RequestException\<close> that is not an \<^verbatim>\<open>HTTPError\<close>);
  \<open>ParserError\<close> is pandas' error for a file that is not empty and not tabular.
\<close>

datatype exn =
    FileNotFoundError
  | UnboundLocalError
  | HTTPError
  | TransportError
  | EmptyDataError
  | ParserError
  | SystemExit int

text \<open>
  The exit status of the interpreter for the outcome of \<^verbatim>\<open>asyncio.run(main())\<close>:
  0 on return, the argument of \<^verbatim>\<open>sys.exit\<close>, and 1 for an uncaught exception.
\<close>

fun exit_status :: "exn + unit \<Rightarrow> int" where
  "exit_status (Inr _) = 0"
| "exit_status (Inl (SystemExit n)) = n"
| "exit_status (Inl _) = 1"

subsection \<open>Data\<close>

text \<open>The dataclass \<^verbatim>\<open>PubEntry\<close>.\<close>

record PubEntry =
  bold_text :: string
  content_text :: string

text \<open>
  An element of requests-html: \<open>text_of\<close> is its \<^verbatim>\<open>.text\<close>, and
  \<open>found\<close> lists, for each selector, what \<^verbatim>\<open>.find(selector)\<close> returns (a
  selector that is not listed finds nothing).
\<close>

datatype element = Element (text_of: string) (found: "(string \<times> element list) list")

definition find_el :: "element \<Rightarrow> string \<Rightarrow> element list" where
  "find_el e selector = (case map_of (found e) selector of None \<Rightarrow> [] | Some es \<Rightarrow> es)"

text \<open>A response: \<^verbatim>\<open>status_code\<close> (an integer) and \<^verbatim>\<open>html\<close>.\<close>

record response =
  status_code :: int
  html :: element

text \<open>
  Python values that \<^verbatim>\<open>!=\<close> compares in \<^verbatim>\<open>html_session\<close>: an
  \<^verbatim>\<open>int\<close> and a \<^verbatim>\<open>str\<close> are never equal.
\<close>

datatype pyval = PyInt int | PyStr string

definition py_ne :: "pyval \<Rightarrow> pyval \<Rightarrow> bool" where
  "py_ne a b = (a \<noteq> b)"

text \<open>
  The table \<^verbatim>\<open>scrape-params\<close> of \<^verbatim>\<open>request.toml\<close>, with the fields
  \<^verbatim>\<open>research_code\<close>, \<^verbatim>\<open>url\<close> and \<^verbatim>\<open>selector\<close>, and the file
  itself: absent, or holding the table.
\<close>

record scrape_params =
  cfg_research_code :: "string list"
  cfg_url :: string
  cfg_selector :: string

datatype config_file = Absent | Config scrape_params

text \<open>The dict \<^verbatim>\<open>p\<close> that \<^verbatim>\<open>get_params\<close> returns: keys \<^verbatim>\<open>url\<close>, \<^verbatim>\<open>selector\<close>.\<close>

record params =
  p_url :: "string list"
  p_selector :: string

text \<open>
  A cell of a data frame: a missing value, a string, or the dict
  \<^verbatim>\<open>{f'section_{index}': {'bold_text': b, 'content_text': c}}\<close> that
  \<^verbatim>\<open>main\<close> builds for one section.
\<close>

datatype cell = NaN | Str string | Section nat string string

text \<open>The dict \<^verbatim>\<open>data\<close> of \<^verbatim>\<open>main\<close>: keys \<^verbatim>\<open>url\<close> and \<^verbatim>\<open>text\<close>.\<close>

record data =
  data_url :: string
  data_text :: "cell list"

text \<open>A data frame: its column labels and its rows, one cell per column.\<close>

record dataframe =
  columns :: "string list"
  rows :: "cell list list"

text \<open>
  The dataset file as pandas sees it: nothing to parse (\<open>Blank\<close>, as the file that
  \<^verbatim>\<open>make_data_dir_if_not_exists\<close> creates), a table with a header line, or
  content that is not tabular. The CSV text itself (quoting, type inference) is
  pandas' and is not modelled: a readable file is the table it holds.
\<close>

datatype csv_file = Blank | Table "string list" "cell list list" | Malformed

text \<open>
  The world of one run. \<open>output_dir\<close> is \<open>None\<close> when the directory
  \<^verbatim>\<open>output\<close> does not exist, \<open>Some None\<close> when it exists without the data
  file, and \<open>Some (Some f)\<close> when the file exists. \<open>stdout\<close> lists the exceptions
  whose message \<^verbatim>\<open>print(e)\<close> wrote.
\<close>

record world =
  request_toml :: config_file
  output_dir :: "csv_file option option"
  stdout :: "exn list"

text \<open>
  The transport sessions: how many \<^verbatim>\<open>HTMLSession()\<close> built and how many
  \<^verbatim>\<open>session.close()\<close> closed. The body of a \<^verbatim>\<open>with\<close> statement never
  holds the session object, so it works on the \<^typ>\<open>world\<close> only.
\<close>

record sessions =
  opened :: nat
  closed :: nat

subsection \<open>\<^verbatim>\<open>get_params\<close>\<close>

text \<open>
  The \<^verbatim>\<open>try\<close> block binds the local \<^verbatim>\<open>params\<close> only when the file
  opens. On \<^verbatim>\<open>FileNotFoundError\<close> the handler prints and calls
  \<^verbatim>\<open>sys.exit(3)\<close>: \<open>pending\<close> is the exception in flight when
  \<^verbatim>\<open>finally\<close> starts. The \<^verbatim>\<open>finally\<close> block reads \<^verbatim>\<open>params\<close>:
  unbound, it raises \<^verbatim>\<open>UnboundLocalError\<close>, which replaces the pending
  exception; bound, it returns \<^verbatim>\<open>p\<close>, which discards it.
\<close>

definition get_params :: "world \<Rightarrow> (exn + params) \<times> world" where
  "get_params w =
     (let (bound_params, pending, w1) =
            (case request_toml w of
               Absent \<Rightarrow>
                 (None, Some (SystemExit 3), w\<lparr>stdout := stdout w @ [FileNotFoundError]\<rparr>)
             | Config t \<Rightarrow> (Some t, None, w))
      in case bound_params of
           None \<Rightarrow> (Inl UnboundLocalError, w1)
         | Some t \<Rightarrow>
             (let r_code = cfg_research_code t;
                  url = cfg_url t;
                  request_urls = map (\<lambda>code. url @ code) r_code
              in (Inr \<lparr>p_url = request_urls, p_selector = cfg_selector t\<rparr>, w1)))"

subsection \<open>\<^verbatim>\<open>html_session\<close>\<close>

text \<open>
  The context manager, with the body of the \<^verbatim>\<open>with\<close> statement as a function.
  An exception of the body is thrown into the generator at its \<^verbatim>\<open>yield\<close>, so
  the handler and the \<^verbatim>\<open>finally\<close> block see it as they see one of
  \<^verbatim>\<open>session.get\<close>.
\<close>

definition html_session ::
  "(string \<Rightarrow> exn + response) \<Rightarrow> string \<Rightarrow> (response \<Rightarrow> world \<Rightarrow> (exn + unit) \<times> world)
     \<Rightarrow> sessions \<times> world \<Rightarrow> (exn + unit) \<times> sessions \<times> world" where
  "html_session net request_url body sw =
     (let (s, w) = sw;
          s1 = s\<lparr>opened := opened s + 1\<rparr>;
          (tried, w1) =
            (case net request_url of
               Inl e \<Rightarrow> (Inl e, w)
             | Inr response \<Rightarrow>
                 if py_ne (PyInt (status_code response)) (PyStr ''404'')
                 then body response w
                 else (Inl HTTPError, w));
          (handled, w2) =
            (case tried of
               Inl HTTPError \<Rightarrow> (Inl (SystemExit 3), w1\<lparr>stdout := stdout w1 @ [HTTPError]\<rparr>)
             | Inl e \<Rightarrow> (Inl e, w1)
             | Inr u \<Rightarrow> (Inr u, w1))
      in (handled, s1\<lparr>closed := closed s1 + 1\<rparr>, w2))"

subsection \<open>\<^verbatim>\<open>parse_pub_entry_data\<close>\<close>

text \<open>
  The inner loop \<^verbatim>\<open>for bold_text in p.find("strong"): _b = bold_text.text\<close>, from
  the value \<open>b\<close> that \<^verbatim>\<open>_b\<close> holds before it.
\<close>

fun bold_loop :: "element list \<Rightarrow> string \<Rightarrow> string" where
  "bold_loop [] b = b"
| "bold_loop (strong # rest) b = bold_loop rest (text_of strong)"

text \<open>The outer loop over \<^verbatim>\<open>abstract_content\<close>, appending to \<^verbatim>\<open>pub_entries\<close>.\<close>

fun entries_loop :: "element list \<Rightarrow> PubEntry list \<Rightarrow> PubEntry list" where
  "entries_loop [] pub_entries = pub_entries"
| "entries_loop (p # rest) pub_entries =
     (let b = bold_loop (find_el p ''strong'') '''';
          content = strip (replace (text_of p) b '''');
          entry = \<lparr>bold_text = b, content_text = content\<rparr>
      in entries_loop rest (pub_entries @ [entry]))"

definition parse_pub_entry_data :: "response \<Rightarrow> string \<Rightarrow> PubEntry list" where
  "parse_pub_entry_data response selector =
     (let abstract_content = find_el (html response) selector
      in entries_loop abstract_content [])"

text \<open>
  The specification's wording of the label, for comparison with the code: the trimmed
  text of the first bold child, empty when there is none.
\<close>

definition first_strong_label :: "element \<Rightarrow> string" where
  "first_strong_label p =
     (case find_el p ''strong'' of [] \<Rightarrow> '''' | first # _ \<Rightarrow> strip (text_of first))"

subsection \<open>\<^verbatim>\<open>make_data_dir_if_not_exists\<close>\<close>

definition make_data_dir_if_not_exists :: "world \<Rightarrow> world" where
  "make_data_dir_if_not_exists w =
     (let w1 = (if output_dir w = None then w\<lparr>output_dir := Some None\<rparr> else w)
      in if output_dir w1 = Some None then w1\<lparr>output_dir := Some (Some Blank)\<rparr> else w1)"

subsection \<open>\<^verbatim>\<open>insert_data\<close>\<close>

text \<open>
  \<^verbatim>\<open>pd.DataFrame.from_dict(data)\<close> for the dict of \<^verbatim>\<open>main\<close>: the list under
  \<^verbatim>\<open>text\<close> gives the index, one row per item, and the scalar under
  \<^verbatim>\<open>url\<close> is repeated in every row.
\<close>

definition from_dict :: "data \<Rightarrow> dataframe" where
  "from_dict d =
     \<lparr>columns = [''url'', ''text''],
      rows = map (\<lambda>section. [Str (data_url d), section]) (data_text d)\<rparr>"

text \<open>\<^verbatim>\<open>pd.read_csv\<close> on the dataset path.\<close>

fun read_csv :: "csv_file option option \<Rightarrow> exn + dataframe" where
  "read_csv (Some (Some (Table cs rs))) = Inr \<lparr>columns = cs, rows = rs\<rparr>"
| "read_csv (Some (Some Blank)) = Inl EmptyDataError"
| "read_csv (Some (Some Malformed)) = Inl ParserError"
| "read_csv _ = Inl FileNotFoundError"

text \<open>The cell of a row under a column label; \<open>NaN\<close> when the frame has no such column.\<close>

definition cell_at :: "string list \<Rightarrow> cell list \<Rightarrow> string \<Rightarrow> cell" where
  "cell_at cs r c = (case map_of (zip cs r) c of None \<Rightarrow> NaN | Some v \<Rightarrow> v)"

text \<open>
  \<^verbatim>\<open>pd.concat([a, b], ignore_index=True)\<close>: the columns of \<open>a\<close>, then those of
  \<open>b\<close> that \<open>a\<close> lacks; the rows of \<open>a\<close>, then those of \<open>b\<close>, each laid out on the
  joint columns with \<open>NaN\<close> where its frame has no value.
\<close>

definition concat_frames :: "dataframe \<Rightarrow> dataframe \<Rightarrow> dataframe" where
  "concat_frames a b =
     (let cs = columns a @ filter (\<lambda>c. c \<notin> set (columns a)) (columns b)
      in \<lparr>columns = cs,
          rows = map (\<lambda>r. map (cell_at (columns a) r) cs) (rows a)
               @ map (\<lambda>r. map (cell_at (columns b) r) cs) (rows b)\<rparr>)"

text \<open>\<^verbatim>\<open>df.to_csv(path, index=False)\<close>: the header and the rows, no index column.\<close>

definition to_csv :: "dataframe \<Rightarrow> csv_file" where
  "to_csv df = Table (columns df) (rows df)"

definition insert_data :: "data \<Rightarrow> world \<Rightarrow> (exn + unit) \<times> world" where
  "insert_data d w =
     (let new_data = from_dict d;
          loaded =
            (case read_csv (output_dir w) of
               Inl EmptyDataError \<Rightarrow> Inr \<lparr>columns = [], rows = []\<rparr>
             | Inl e \<Rightarrow> Inl e
             | Inr df \<Rightarrow> Inr df)
      in case loaded of
           Inl e \<Rightarrow> (Inl e, w)
         | Inr pubmed_df \<Rightarrow>
             (let pubmed_df0 = concat_frames pubmed_df new_data
              in (Inr (), w\<lparr>output_dir := Some (Some (to_csv pubmed_df0))\<rparr>)))"

subsection \<open>\<^verbatim>\<open>main\<close>\<close>

text \<open>
  The loop \<^verbatim>\<open>for index, entries in enumerate(pub_entry)\<close> that fills
  \<^verbatim>\<open>data['text']\<close>.
\<close>

fun text_loop :: "nat \<Rightarrow> PubEntry list \<Rightarrow> cell list \<Rightarrow> cell list" where
  "text_loop index [] acc = acc"
| "text_loop index (entries # rest) acc =
     text_loop (Suc index) rest
       (acc @ [Section index (bold_text entries) (content_text entries)])"

text \<open>The body of the \<^verbatim>\<open>with\<close> statement, for one request URL.\<close>

definition with_body :: "string \<Rightarrow> string \<Rightarrow> response \<Rightarrow> world \<Rightarrow> (exn + unit) \<times> world" where
  "with_body url_code_requests selector session_response w =
     (let pub_entry = parse_pub_entry_data session_response selector;
          d = \<lparr>data_url = url_code_requests, data_text = text_loop 0 pub_entry []\<rparr>
      in insert_data d w)"

text \<open>The loop over \<^verbatim>\<open>p['url']\<close>; an exception ends it.\<close>

fun url_loop ::
  "(string \<Rightarrow> exn + response) \<Rightarrow> string \<Rightarrow> string list \<Rightarrow> sessions \<times> world
     \<Rightarrow> (exn + unit) \<times> sessions \<times> world" where
  "url_loop net selector [] sw = (Inr (), sw)"
| "url_loop net selector (u # us) sw =
     (case html_session net u (with_body u selector) sw of
        (Inl e, sw1) \<Rightarrow> (Inl e, sw1)
      | (Inr _, sw1) \<Rightarrow> url_loop net selector us sw1)"

definition main ::
  "(string \<Rightarrow> exn + response) \<Rightarrow> sessions \<times> world \<Rightarrow> (exn + unit) \<times> sessions \<times> world" where
  "main net sw =
     (let (s, w) = sw;
          w1 = make_data_dir_if_not_exists w
      in case get_params w1 of
           (Inl e, w2) \<Rightarrow> (Inl e, s, w2)
         | (Inr p, w2) \<Rightarrow> url_loop net (p_selector p) (p_url p) (s, w2))"

text \<open>The number of data rows of the dataset file (none when there is no readable table).\<close>

fun row_count :: "world \<Rightarrow> nat" where
  "row_count w = (case output_dir w of Some (Some (Table cs rs)) \<Rightarrow> length rs | _ \<Rightarrow> 0)"

text \<open>
  What one pass of the outer loop of \<^verbatim>\<open>parse_pub_entry_data\<close> appends for the
  element \<open>p\<close>.
\<close>

definition entry_of :: "element \<Rightarrow> PubEntry" where
  "entry_of p =
     \<lparr>bold_text = bold_loop (find_el p ''strong'') '''',
      content_text = strip (replace (text_of p) (bold_loop (find_el p ''strong'') '''') '''')\<rparr>"

subsection \<open>Example pages, configurations and worlds\<close>

text \<open>
  An abstract paragraph with two bold runs,
  \<^verbatim>\<open><p><strong>Background:</strong> x <strong>Methods:</strong> y</p>\<close>, and a
  page that holds it under the selector \<^verbatim>\<open>.abstract\<close>.
\<close>

definition two_strong_element :: element where
  "two_strong_element =
     Element ''Background: x Methods: y''
       [(''strong'', [Element ''Background:'' [], Element ''Methods:'' []])]"

definition two_strong_page :: response where
  "two_strong_page =
     \<lparr>status_code = 200,
      html = Element ''Background: x Methods: y'' [(''.abstract'', [two_strong_element])]\<rparr>"

text \<open>
  A paragraph \<^verbatim>\<open><p><strong>ab</strong>aabb ab</p>\<close>: removing the label joins the
  characters around it into the label again.
\<close>

definition rejoined_element :: element where
  "rejoined_element = Element ''abaabb ab'' [(''strong'', [Element ''ab'' []])]"

definition rejoined_page :: response where
  "rejoined_page =
     \<lparr>status_code = 200, html = Element ''abaabb ab'' [(''.abstract'', [rejoined_element])]\<rparr>"


definition empty_page :: response where
  "empty_page = \<lparr>status_code = 200, html = Element ''No abstract available'' []\<rparr>"

definition not_found_page :: response where
  "not_found_page = \<lparr>status_code = 404, html = Element ''Not Found'' []\<rparr>"

text \<open>The configuration of the specification's scenario.\<close>

definition example_config :: scrape_params where
  "example_config =
     \<lparr>cfg_research_code = [''100'', ''101''],
      cfg_url = ''https://example.org/'',
      cfg_selector = ''.abstract''\<rparr>"

text \<open>
  Worlds: the dataset file just created, a dataset of one row, and a dataset file that
  is not tabular.
\<close>

definition fresh_world :: world where
  "fresh_world =
     \<lparr>request_toml = Config example_config, output_dir = Some (Some Blank), stdout = []\<rparr>"

definition one_row_world :: world where
  "one_row_world =
     \<lparr>request_toml = Config example_config,
      output_dir = Some (Some (Table [''url'', ''text'']
        [[Str ''https://example.org/100'', Section 0 ''Conclusion:'' ''All related content.'']])),
      stdout = []\<rparr>"

definition corrupt_world :: world where
  "corrupt_world =
     \<lparr>request_toml = Config example_config, output_dir = Some (Some Malformed), stdout = []\<rparr>"

definition example_data :: data where
  "example_data =
     \<lparr>data_url = ''https://example.org/101'',
      data_text = [Section 0 ''Conclusion:'' ''All related content.'']\<rparr>"

section \<open>Properties of the string primitives\<close>


lemma dropWhile_hd: "dropWhile P xs \<noteq> [] \<Longrightarrow> \<not> P (hd (dropWhile P xs))"
  by (simp add: hd_dropWhile)

lemma rev_drop_take_While:
  "rev (dropWhile P ys) @ rev (takeWhile P ys) = rev ys"
  by (simp flip: rev_append)

lemma rstrip_prefix:
  "xs = rev (dropWhile P (rev xs)) @ rev (takeWhile P (rev xs))"
  using rev_drop_take_While [of P "rev xs"] by simp

text \<open>A stripped string is empty, or neither starts nor ends with whitespace.\<close>

lemma strip_ends:
  "strip s = [] \<or> (\<not> isspace (hd (strip s)) \<and> \<not> isspace (last (strip s)))"
proof (cases "strip s = []")
  case True
  then show ?thesis by simp
next
  case False
  define l where "l = dropWhile isspace s"
  define r where "r = dropWhile isspace (rev l)"
  have strip_r: "strip s = rev r" by (simp add: strip_def l_def r_def)
  with False have r: "r \<noteq> []" by simp
  then have "\<not> isspace (hd r)" unfolding r_def by (rule dropWhile_hd)
  moreover have "last (strip s) = hd r" using r by (simp add: strip_r last_rev)
  ultimately have at_end: "\<not> isspace (last (strip s))" by simp
  have split: "l = rev r @ rev (takeWhile isspace (rev l))"
    unfolding r_def by (rule rstrip_prefix)
  from r have "rev r \<noteq> []" by simp
  with split have "hd l = hd (rev r)" by (metis hd_append2)
  moreover have "l \<noteq> []" using split r by auto
  then have "\<not> isspace (hd l)" unfolding l_def by (rule dropWhile_hd)
  ultimately have "\<not> isspace (hd (strip s))" by (simp add: strip_r)
  with at_end show ?thesis by simp
qed

section \<open>The loops of the extractor\<close>

lemma bold_loop_last:
  "bold_loop bs b = (if bs = [] then b else text_of (last bs))"
  by (induction bs arbitrary: b) auto

lemma entries_loop_map:
  "entries_loop ps pub_entries = pub_entries @ map entry_of ps"
  by (induction ps arbitrary: pub_entries) (simp_all add: entry_of_def Let_def)

lemma parse_pub_entry_data_map:
  "parse_pub_entry_data response selector = map entry_of (find_el (html response) selector)"
  by (simp add: parse_pub_entry_data_def entries_loop_map)

lemma parse_length:
  "length (parse_pub_entry_data response selector) = length (find_el (html response) selector)"
  by (simp add: parse_pub_entry_data_map)

lemma text_loop_length:
  "length (text_loop index es acc) = length acc + length es"
  by (induction es arbitrary: index acc) simp_all

section \<open>The data frames of the store writer\<close>



lemma concat_frames_length:
  "length (rows (concat_frames a b)) = length (rows a) + length (rows b)"
  by (simp add: concat_frames_def)



lemma concat_frames_empty:
  "concat_frames \<lparr>columns = [], rows = []\<rparr> (from_dict d) = from_dict d"
  by (simp add: concat_frames_def from_dict_def cell_at_def comp_def)

lemma insert_data_table:
  "output_dir w = Some (Some (Table cs rs)) \<Longrightarrow>
   insert_data d w =
     (Inr (), w\<lparr>output_dir :=
        Some (Some (to_csv (concat_frames \<lparr>columns = cs, rows = rs\<rparr> (from_dict d))))\<rparr>)"
  by (simp add: insert_data_def)

lemma insert_data_blank:
  "output_dir w = Some (Some Blank) \<Longrightarrow>
   insert_data d w = (Inr (), w\<lparr>output_dir := Some (Some (to_csv (from_dict d)))\<rparr>)"
  by (simp add: insert_data_def concat_frames_empty)

lemma insert_data_malformed:
  "output_dir w = Some (Some Malformed) \<Longrightarrow> insert_data d w = (Inl ParserError, w)"
  by (simp add: insert_data_def)

section \<open>Configuration and sessions\<close>

lemma get_params_absent:
  "request_toml w = Absent \<Longrightarrow>
   get_params w = (Inl UnboundLocalError, w\<lparr>stdout := stdout w @ [FileNotFoundError]\<rparr>)"
  by (simp add: get_params_def)

lemma make_data_dir_keeps_config:
  "request_toml (make_data_dir_if_not_exists w) = request_toml w"
  by (simp add: make_data_dir_if_not_exists_def Let_def)

text \<open>The status test of \<^verbatim>\<open>html_session\<close> holds for every status code.\<close>

lemma status_test_always_true: "py_ne (PyInt n) (PyStr ''404'')"
  by (simp add: py_ne_def)

lemma html_session_sessions:
  "html_session net u body (s, w) = (r, s1, w1) \<Longrightarrow>
   s1 = s\<lparr>opened := opened s + 1, closed := closed s + 1\<rparr>"
  by (auto simp add: html_session_def Let_def split: prod.splits)

text \<open>Over a whole run, as many sessions are closed as were opened.\<close>

lemma url_loop_sessions_balanced:
  "opened (fst (snd (url_loop net selector us (s, w)))) + closed s =
   closed (fst (snd (url_loop net selector us (s, w)))) + opened s"
proof (induction us arbitrary: s w)
  case Nil
  then show ?case by simp
next
  case (Cons u us)
  obtain r s1 w1 where h: "html_session net u (with_body u selector) (s, w) = (r, s1, w1)"
    by (cases "html_session net u (with_body u selector) (s, w)") auto
  then have s1: "s1 = s\<lparr>opened := opened s + 1, closed := closed s + 1\<rparr>"
    by (rule html_session_sessions)
  show ?case
  proof (cases r)
    case (Inl e)
    with h s1 show ?thesis by simp
  next
    case (Inr x)
    with h s1 Cons.IH [of s1 w1] show ?thesis by simp
  qed
qed

section \<open>The claims of the specification\<close>

subsection \<open>Segment extractor\<close>

text \<open>
  C1 (as the code has it). For every matched element, in document order, the label is
  the text of the LAST element that \<^verbatim>\<open>find("strong")\<close> returns in it, and the
  empty string when it returns none: the inner loop overwrites \<^verbatim>\<open>_b\<close> on every
  pass and never leaves early.
\<close>

theorem C1_label_is_last_strong:
  "map bold_text (parse_pub_entry_data response selector) =
     map (\<lambda>p. if find_el p ''strong'' = [] then ''''
              else text_of (last (find_el p ''strong'')))
         (find_el (html response) selector)"
  by (simp add: parse_pub_entry_data_map entry_of_def bold_loop_last)

text \<open>
  C1 as stated fails: on the paragraph with the bold runs \<^verbatim>\<open>Background:\<close> and
  \<^verbatim>\<open>Methods:\<close> the code's label is \<^verbatim>\<open>Methods:\<close>, and the first bold run's
  trimmed text is \<^verbatim>\<open>Background:\<close>.
\<close>

theorem C1_first_strong_counterexample:
  "map bold_text (parse_pub_entry_data two_strong_page ''.abstract'') = [''Methods:''] \<and>
   map first_strong_label (find_el (html two_strong_page) ''.abstract'') = [''Background:'']"
  by (simp add: parse_pub_entry_data_def two_strong_page_def two_strong_element_def
      find_el_def first_strong_label_def strip_def isspace_def)

text \<open>
  C3 (as the code has it). For the \<open>i\<close>-th matched element, the body is the element's
  text with EVERY non-overlapping occurrence of the label removed (scanning from the
  left) and then trimmed; so the body is empty or neither starts nor ends with
  whitespace.
\<close>

theorem C3_body_is_text_without_label_trimmed:
  "ps = find_el (html response) selector \<Longrightarrow>
   e = parse_pub_entry_data response selector ! i \<Longrightarrow>
   i < length ps \<Longrightarrow>
   content_text e = strip (replace (text_of (ps ! i)) (bold_text e) '''') \<and>
   (content_text e = [] \<or>
    (\<not> isspace (hd (content_text e)) \<and> \<not> isspace (last (content_text e))))"
  by (simp add: parse_pub_entry_data_map entry_of_def strip_ends)

theorem C3_body_is_text_without_label_trimmed_witness:
  "content_text (parse_pub_entry_data two_strong_page ''.abstract'' ! 0) = ''Background: x  y'' \<and>
   \<not> isspace (hd ''Background: x  y'') \<and> \<not> isspace (last ''Background: x  y'')"
  using C3_body_is_text_without_label_trimmed
    [of "[two_strong_element]" two_strong_page "''.abstract''"
        "parse_pub_entry_data two_strong_page ''.abstract'' ! 0" 0]
  by (simp add: parse_pub_entry_data_def two_strong_page_def two_strong_element_def
      find_el_def strip_def isspace_def Let_def)

text \<open>
  C3 as stated fails. On \<^verbatim>\<open><p><strong>ab</strong>aabb ab</p>\<close> the label is
  \<^verbatim>\<open>ab\<close> and the code's body is \<^verbatim>\<open>ab\<close>: both later occurrences of the label
  are removed as well, where removing the first occurrence only and trimming gives
  \<^verbatim>\<open>aabb ab\<close>; and the label, first found at offset 0 of the element's text,
  stands at offset 0 of the body again.
\<close>

theorem C3_first_occurrence_counterexample:
  "bold_text (hd (parse_pub_entry_data rejoined_page ''.abstract'')) = ''ab'' \<and>
   content_text (hd (parse_pub_entry_data rejoined_page ''.abstract'')) = ''ab'' \<and>
   strip (replace_first (strip (text_of rejoined_element)) ''ab'' '''') = ''aabb ab'' \<and>
   take 2 (text_of rejoined_element) = ''ab'' \<and>
   take 2 (content_text (hd (parse_pub_entry_data rejoined_page ''.abstract''))) = ''ab''"
  by (simp add: parse_pub_entry_data_def rejoined_page_def rejoined_element_def
      find_el_def strip_def isspace_def Let_def)



subsection \<open>Store writer\<close>

text \<open>
  C2 (as the code has it). Against a dataset file that is empty or a table, the body of
  the \<^verbatim>\<open>with\<close> statement returns, and the row count grows by one row per
  section of the page, that is per element the selector matches: the data frame built
  from \<^verbatim>\<open>{'url': u, 'text': [...]}\<close> has one row per item of the list.
\<close>

theorem C2_rows_grow_by_sections:
  "output_dir w = Some (Some f) \<Longrightarrow> f \<noteq> Malformed \<Longrightarrow>
   fst (with_body u selector session_response w) = Inr () \<and>
   row_count (snd (with_body u selector session_response w)) =
     row_count w + length (find_el (html session_response) selector)"
  by (cases f)
     (simp_all add: with_body_def insert_data_table insert_data_blank to_csv_def
        concat_frames_length from_dict_def text_loop_length parse_length Let_def)

theorem C2_rows_grow_by_sections_witness:
  "fst (with_body ''https://example.org/101'' ''.abstract'' two_strong_page one_row_world)
     = Inr () \<and>
   row_count (snd (with_body ''https://example.org/101'' ''.abstract'' two_strong_page
     one_row_world)) = 2"
  using C2_rows_grow_by_sections
    [of one_row_world _ "''https://example.org/101''" "''.abstract''" two_strong_page]
  by (simp add: one_row_world_def two_strong_page_def find_el_def)

text \<open>
  C2 as stated fails in its zero-section case: for a page that the selector does not
  match, the write succeeds and leaves the dataset of one row as it was; no row with
  the page's url is appended.
\<close>

theorem C2_zero_section_page_counterexample:
  "with_body ''https://example.org/101'' ''.abstract'' empty_page one_row_world
     = (Inr (), one_row_world) \<and>
   row_count one_row_world = 1"
  by (simp add: with_body_def parse_pub_entry_data_def empty_page_def find_el_def
      insert_data_def from_dict_def concat_frames_def to_csv_def cell_at_def one_row_world_def)



text \<open>
  C7 (as the code has it). Only pandas' \<^verbatim>\<open>EmptyDataError\<close> is caught. A write
  against the empty file succeeds and the file then holds exactly the new rows under
  the columns \<^verbatim>\<open>url\<close>, \<^verbatim>\<open>text\<close>; a write against a file that is not empty
  and not tabular raises the parser's error and leaves the world as it was.
\<close>

theorem C7_blank_recovered_malformed_raises:
  "(output_dir w = Some (Some Blank) \<longrightarrow>
      insert_data d w =
        (Inr (), w\<lparr>output_dir := Some (Some (Table [''url'', ''text'']
                    (map (\<lambda>section. [Str (data_url d), section]) (data_text d))))\<rparr>)) \<and>
   (output_dir w' = Some (Some Malformed) \<longrightarrow> insert_data d w' = (Inl ParserError, w'))"
  by (simp add: insert_data_blank insert_data_malformed to_csv_def from_dict_def)

theorem C7_blank_recovered_malformed_raises_witness:
  "insert_data example_data fresh_world =
     (Inr (), fresh_world\<lparr>output_dir := Some (Some (Table [''url'', ''text'']
        [[Str ''https://example.org/101'', Section 0 ''Conclusion:'' ''All related content.'']]))\<rparr>) \<and>
   insert_data example_data (corrupt_world\<lparr>stdout := [HTTPError]\<rparr>)
     = (Inl ParserError, corrupt_world\<lparr>stdout := [HTTPError]\<rparr>)"
  using C7_blank_recovered_malformed_raises
    [of fresh_world example_data "corrupt_world\<lparr>stdout := [HTTPError]\<rparr>"]
  by (simp add: fresh_world_def corrupt_world_def example_data_def)

text \<open>
  C7 as stated fails for a file that is unreadable as tabular data: the write raises
  \<^verbatim>\<open>ParserError\<close> instead of going on from zero existing rows.
\<close>

theorem C7_unreadable_file_counterexample:
  "insert_data example_data corrupt_world = (Inl ParserError, corrupt_world)"
  by (simp add: insert_data_def corrupt_world_def)

subsection \<open>Fetcher\<close>

text \<open>
  C4 (the code at a 404 response). \<^verbatim>\<open>response.status_code != '404'\<close> compares
  an integer with a string, so it holds for the status 404 as for every other: the
  response is yielded, the body of the \<^verbatim>\<open>with\<close> statement runs and returns,
  nothing is printed and no \<^verbatim>\<open>SystemExit\<close> is raised.
\<close>

theorem C4_not_found_response_is_yielded:
  "html_session (\<lambda>url. Inr not_found_page) ''https://example.org/101''
       (with_body ''https://example.org/101'' ''.abstract'')
       (\<lparr>opened = 0, closed = 0\<rparr>, one_row_world)
     = (Inr (), \<lparr>opened = 1, closed = 1\<rparr>, one_row_world)"
  by (simp add: html_session_def py_ne_def not_found_page_def with_body_def
      parse_pub_entry_data_def find_el_def insert_data_def from_dict_def concat_frames_def
      to_csv_def cell_at_def one_row_world_def)

text \<open>
  C9. Whatever \<^verbatim>\<open>session.get\<close> does (raise or return) and whatever the body of
  the \<^verbatim>\<open>with\<close> statement does (raise, \<^verbatim>\<open>HTTPError\<close> included, or
  return), one call of \<^verbatim>\<open>html_session\<close> opens exactly one session and closes
  exactly one.
\<close>

theorem C9_session_closed_on_every_path:
  "fst (snd (html_session net request_url body (s, w))) =
     s\<lparr>opened := opened s + 1, closed := closed s + 1\<rparr>"
  by (simp add: html_session_def Let_def split: prod.splits)

subsection \<open>Config loader\<close>

text \<open>
  C5 (the code without \<^verbatim>\<open>request.toml\<close>). The handler prints the error and
  calls \<^verbatim>\<open>sys.exit(3)\<close>, but the \<^verbatim>\<open>finally\<close> block then reads the local
  \<^verbatim>\<open>params\<close>, which was never bound: \<^verbatim>\<open>get_params\<close> raises
  \<^verbatim>\<open>UnboundLocalError\<close>, and the run ends with exit status 1, not 3.
\<close>

theorem C5_missing_config_raises_unbound_local:
  "get_params (w\<lparr>request_toml := Absent\<rparr>) =
     (Inl UnboundLocalError,
      w\<lparr>request_toml := Absent, stdout := stdout w @ [FileNotFoundError]\<rparr>) \<and>
   exit_status (fst (main net (s, w\<lparr>request_toml := Absent\<rparr>))) = 1"
proof -
  define w1 where "w1 = make_data_dir_if_not_exists (w\<lparr>request_toml := Absent\<rparr>)"
  have "request_toml w1 = Absent"
    by (simp add: w1_def make_data_dir_keeps_config)
  then have "get_params w1 =
      (Inl UnboundLocalError, w1\<lparr>stdout := stdout w1 @ [FileNotFoundError]\<rparr>)"
    by (rule get_params_absent)
  then have "fst (main net (s, w\<lparr>request_toml := Absent\<rparr>)) = Inl UnboundLocalError"
    by (simp add: main_def w1_def)
  then show ?thesis by (simp add: get_params_absent)
qed

text \<open>
  C8. With the url \<open>u\<close> and the research codes \<open>codes\<close> in the configuration,
  \<^verbatim>\<open>get_params\<close> returns the list of \<open>u\<close> followed by each code, in the order
  of the codes, whatever else the world holds, and changes nothing.
\<close>

theorem C8_request_urls_are_concatenations:
  "get_params (w\<lparr>request_toml :=
       Config \<lparr>cfg_research_code = codes, cfg_url = u, cfg_selector = sel\<rparr>\<rparr>) =
     (Inr \<lparr>p_url = map (\<lambda>code. u @ code) codes, p_selector = sel\<rparr>,
      w\<lparr>request_toml := Config \<lparr>cfg_research_code = codes, cfg_url = u, cfg_selector = sel\<rparr>\<rparr>)"
  by (simp add: get_params_def)

end
